theory Spec2Isabelle
  imports Complex_Main "HOL-Library.AList"
begin

section \<open>JavaScript values\<close>

text \<open>
  The stream manager of the operator dashboard (\<^verbatim>\<open>services/wsManager.ts\<close>) receives
  raw WebSocket messages, decodes them with \<^verbatim>\<open>JSON.parse\<close>, validates them against a zod
  schema, tracks one sequence number per stream and hands the envelope to the subscribers
  of the stream.

  A value of the program is a \<open>jsvalue\<close>. Numbers are exact rationals: the rounding of
  IEEE doubles, which starts above \<open>2^53\<close> for integers, is not part of this model.
  Strings are byte lists holding the UTF-8 form of the text, as a WebSocket text frame
  carries it. An object is the list of its properties in insertion order; a later
  occurrence of a key overrides an earlier one (\<open>get_prop\<close> below).
\<close>

datatype jsvalue =
    JUndefined
  | JNull
  | JBool bool
  | JNumber rat
  | JString string
  | JArray "jsvalue list"
  | JObject "(string \<times> jsvalue) list"

section \<open>Decoding: \<^verbatim>\<open>JSON.parse\<close>\<close>

text \<open>
  \<^verbatim>\<open>JSON.parse\<close> is the platform's function, modelled after the JSON grammar of
  ECMA-404: \<open>None\<close> stands for the \<^verbatim>\<open>SyntaxError\<close> it throws. The parser is a recursive
  descent whose first argument bounds the depth of the recursion; every second call at
  least consumes one character, so \<open>Suc (length s + length s)\<close> is never exhausted on
  the text \<open>s\<close>.
\<close>

definition is_ws :: "char \<Rightarrow> bool" where
  "is_ws c \<longleftrightarrow> c = CHR 0x20 \<or> c = CHR 0x09 \<or> c = CHR 0x0A \<or> c = CHR 0x0D"

definition skip_ws :: "string \<Rightarrow> string" where
  "skip_ws = dropWhile is_ws"

definition is_digit :: "char \<Rightarrow> bool" where
  "is_digit c \<longleftrightarrow> (48::nat) \<le> of_char c \<and> of_char c \<le> (57::nat)"

definition digits_val :: "string \<Rightarrow> nat" where
  "digits_val ds = foldl (\<lambda>n c. 10 * n + (of_char c - 48)) 0 ds"

definition hex_val :: "char \<Rightarrow> nat option" where
  "hex_val c =
     (let n = of_char c :: nat in
      if 48 \<le> n \<and> n \<le> 57 then Some (n - 48)
      else if 65 \<le> n \<and> n \<le> 70 then Some (n - 55)
      else if 97 \<le> n \<and> n \<le> 102 then Some (n - 87)
      else None)"

definition hex4 :: "char \<Rightarrow> char \<Rightarrow> char \<Rightarrow> char \<Rightarrow> nat option" where
  "hex4 a b c d =
     (case (hex_val a, hex_val b, hex_val c, hex_val d) of
        (Some x, Some y, Some z, Some w) \<Rightarrow> Some (((x * 16 + y) * 16 + z) * 16 + w)
      | _ \<Rightarrow> None)"

definition utf8 :: "nat \<Rightarrow> string" where
  "utf8 n =
     (if n < 0x80 then [char_of n]
      else if n < 0x800 then [char_of (0xC0 + n div 64), char_of (0x80 + n mod 64)]
      else if n < 0x10000 then
        [char_of (0xE0 + n div 4096), char_of (0x80 + n div 64 mod 64), char_of (0x80 + n mod 64)]
      else
        [char_of (0xF0 + n div 262144), char_of (0x80 + n div 4096 mod 64),
         char_of (0x80 + n div 64 mod 64), char_of (0x80 + n mod 64)])"

definition escape_char :: "char \<Rightarrow> char option" where
  "escape_char e =
     (if e = CHR 0x22 then Some (CHR 0x22)
      else if e = CHR 0x5C then Some (CHR 0x5C)
      else if e = CHR ''/'' then Some (CHR ''/'')
      else if e = CHR ''b'' then Some (CHR 0x08)
      else if e = CHR ''f'' then Some (CHR 0x0C)
      else if e = CHR ''n'' then Some (CHR 0x0A)
      else if e = CHR ''r'' then Some (CHR 0x0D)
      else if e = CHR ''t'' then Some (CHR 0x09)
      else None)"

definition surrogate_pair :: "nat \<Rightarrow> string \<Rightarrow> nat option" where
  "surrogate_pair hi cs =
     (case cs of
        [b, u, l1, l2, l3, l4] \<Rightarrow>
          if 0xD800 \<le> hi \<and> hi \<le> 0xDBFF \<and> b = CHR 0x5C \<and> u = CHR ''u'' then
            (case hex4 l1 l2 l3 l4 of
               Some lo \<Rightarrow>
                 if 0xDC00 \<le> lo \<and> lo \<le> 0xDFFF
                 then Some (0x10000 + (hi - 0xD800) * 0x400 + (lo - 0xDC00))
                 else None
             | None \<Rightarrow> None)
          else None
      | _ \<Rightarrow> None)"

fun parse_chars :: "string \<Rightarrow> (string \<times> string) option" where
  "parse_chars [] = None"
| "parse_chars (c # cs) =
     (if c = CHR 0x22 then Some ([], cs)
      else if (of_char c :: nat) < 0x20 then None
      else if c = CHR 0x5C then
        (case cs of
           [] \<Rightarrow> None
         | e # cs1 \<Rightarrow>
             if e = CHR ''u'' then
               (case cs1 of
                  h1 # h2 # h3 # h4 # cs2 \<Rightarrow>
                    (case hex4 h1 h2 h3 h4 of
                       None \<Rightarrow> None
                     | Some n \<Rightarrow>
                         (case surrogate_pair n (take 6 cs2) of
                            Some cp \<Rightarrow>
                              map_option (\<lambda>(s, r). (utf8 cp @ s, r)) (parse_chars (drop 6 cs2))
                          | None \<Rightarrow>
                              map_option (\<lambda>(s, r). (utf8 n @ s, r)) (parse_chars cs2)))
                | _ \<Rightarrow> None)
             else
               (case escape_char e of
                  None \<Rightarrow> None
                | Some x \<Rightarrow> map_option (\<lambda>(s, r). (x # s, r)) (parse_chars cs1)))
      else map_option (\<lambda>(s, r). (c # s, r)) (parse_chars cs))"

definition parse_frac :: "string \<Rightarrow> (string \<times> string) option" where
  "parse_frac cs =
     (case cs of
        c # r \<Rightarrow>
          if c = CHR ''.'' then
            (if takeWhile is_digit r = [] then None
             else Some (takeWhile is_digit r, dropWhile is_digit r))
          else Some ([], cs)
      | [] \<Rightarrow> Some ([], cs))"

definition parse_exp :: "string \<Rightarrow> (int \<times> string) option" where
  "parse_exp cs =
     (case cs of
        c # r \<Rightarrow>
          if c = CHR ''e'' \<or> c = CHR ''E'' then
            (let (neg, r1) =
                   (case r of
                      s # r' \<Rightarrow>
                        if s = CHR ''-'' then (True, r')
                        else if s = CHR ''+'' then (False, r') else (False, r)
                    | [] \<Rightarrow> (False, r))
             in if takeWhile is_digit r1 = [] then None
                else Some ((if neg then - 1 else 1) * int (digits_val (takeWhile is_digit r1)),
                           dropWhile is_digit r1))
          else Some (0, cs)
      | [] \<Rightarrow> Some (0, cs))"

definition pow10 :: "int \<Rightarrow> rat" where
  "pow10 e = (if 0 \<le> e then 10 ^ nat e else 1 / 10 ^ nat (- e))"

definition parse_number :: "string \<Rightarrow> (rat \<times> string) option" where
  "parse_number cs =
     (let (neg, cs1) =
            (case cs of
               c # r \<Rightarrow> if c = CHR ''-'' then (True, r) else (False, cs)
             | [] \<Rightarrow> (False, cs));
          ds = (case cs1 of
                  c # r \<Rightarrow> if c = CHR ''0'' then [c] else takeWhile is_digit cs1
                | [] \<Rightarrow> []);
          cs2 = drop (length ds) cs1
      in if ds = [] then None
         else
           (case parse_frac cs2 of
              None \<Rightarrow> None
            | Some (fs, cs3) \<Rightarrow>
                (case parse_exp cs3 of
                   None \<Rightarrow> None
                 | Some (e, cs4) \<Rightarrow>
                     Some ((if neg then - 1 else 1)
                             * (of_nat (digits_val ds) + of_nat (digits_val fs) / 10 ^ length fs)
                             * pow10 e,
                           cs4))))"

fun parse_value :: "nat \<Rightarrow> string \<Rightarrow> (jsvalue \<times> string) option"
  and parse_elements :: "nat \<Rightarrow> jsvalue list \<Rightarrow> string \<Rightarrow> (jsvalue list \<times> string) option"
  and parse_members ::
    "nat \<Rightarrow> (string \<times> jsvalue) list \<Rightarrow> string \<Rightarrow> ((string \<times> jsvalue) list \<times> string) option"
where
  "parse_value 0 cs = None"
| "parse_value (Suc n) cs =
     (case skip_ws cs of
        [] \<Rightarrow> None
      | c # r \<Rightarrow>
          if c = CHR ''{'' then
            (case skip_ws r of
               [] \<Rightarrow> None
             | c' # r' \<Rightarrow>
                 if c' = CHR ''}'' then Some (JObject [], r')
                 else map_option (\<lambda>(ms, r''). (JObject ms, r'')) (parse_members n [] (c' # r')))
          else if c = CHR ''['' then
            (case skip_ws r of
               [] \<Rightarrow> None
             | c' # r' \<Rightarrow>
                 if c' = CHR '']'' then Some (JArray [], r')
                 else map_option (\<lambda>(vs, r''). (JArray vs, r'')) (parse_elements n [] (c' # r')))
          else if c = CHR 0x22 then map_option (\<lambda>(s, r'). (JString s, r')) (parse_chars r)
          else if take 4 (c # r) = ''true'' then Some (JBool True, drop 4 (c # r))
          else if take 5 (c # r) = ''false'' then Some (JBool False, drop 5 (c # r))
          else if take 4 (c # r) = ''null'' then Some (JNull, drop 4 (c # r))
          else map_option (\<lambda>(x, r'). (JNumber x, r')) (parse_number (c # r)))"
| "parse_elements 0 acc cs = None"
| "parse_elements (Suc n) acc cs =
     (case parse_value n cs of
        None \<Rightarrow> None
      | Some (v, r) \<Rightarrow>
          (case skip_ws r of
             [] \<Rightarrow> None
           | c # r' \<Rightarrow>
               if c = CHR '','' then parse_elements n (acc @ [v]) r'
               else if c = CHR '']'' then Some (acc @ [v], r')
               else None))"
| "parse_members 0 acc cs = None"
| "parse_members (Suc n) acc cs =
     (case skip_ws cs of
        [] \<Rightarrow> None
      | q # r \<Rightarrow>
          if q \<noteq> CHR 0x22 then None
          else
            (case parse_chars r of
               None \<Rightarrow> None
             | Some (k, r1) \<Rightarrow>
                 (case skip_ws r1 of
                    [] \<Rightarrow> None
                  | c # r2 \<Rightarrow>
                      if c \<noteq> CHR '':'' then None
                      else
                        (case parse_value n r2 of
                           None \<Rightarrow> None
                         | Some (v, r3) \<Rightarrow>
                             (case skip_ws r3 of
                                [] \<Rightarrow> None
                              | d # r4 \<Rightarrow>
                                  if d = CHR '','' then parse_members n (acc @ [(k, v)]) r4
                                  else if d = CHR ''}'' then Some (acc @ [(k, v)], r4)
                                  else None)))))"

definition JSON_parse :: "string \<Rightarrow> jsvalue option" where
  "JSON_parse s =
     (case parse_value (Suc (length s + length s)) s of
        None \<Rightarrow> None
      | Some (v, r) \<Rightarrow> if skip_ws r = [] then Some v else None)"

section \<open>The envelope schema\<close>

text \<open>
  \<^verbatim>\<open>
  const envelopeSchema = z.object({
    kind: z.string(),
    stream: z.enum(['market', 'portfolio', 'system']),
    sequence: z.number().int().nonnegative(),
    payload: z.unknown()
  });
  \<close>
  \<open>envelopeSchema v\<close> is \<^verbatim>\<open>envelopeSchema.safeParse(v)\<close>: \<open>Some data\<close> on success and
  \<open>None\<close> otherwise. Reading a missing property gives \<open>JUndefined\<close>, which
  \<^verbatim>\<open>z.unknown()\<close> accepts like any other value.
\<close>

record envelope =
  kind :: string
  stream :: string
  sequence :: int
  payload :: jsvalue

definition get_prop :: "(string \<times> jsvalue) list \<Rightarrow> string \<Rightarrow> jsvalue" where
  "get_prop kvs k = (case map_of (rev kvs) k of None \<Rightarrow> JUndefined | Some v \<Rightarrow> v)"

definition z_string :: "jsvalue \<Rightarrow> string option" where
  "z_string v = (case v of JString s \<Rightarrow> Some s | _ \<Rightarrow> None)"

definition z_enum :: "string list \<Rightarrow> jsvalue \<Rightarrow> string option" where
  "z_enum names v = (case v of JString s \<Rightarrow> if s \<in> set names then Some s else None | _ \<Rightarrow> None)"

definition z_number_int_nonnegative :: "jsvalue \<Rightarrow> int option" where
  "z_number_int_nonnegative v =
     (case v of
        JNumber r \<Rightarrow> if of_int \<lfloor>r\<rfloor> = r \<and> 0 \<le> r then Some \<lfloor>r\<rfloor> else None
      | _ \<Rightarrow> None)"

definition z_unknown :: "jsvalue \<Rightarrow> jsvalue option" where
  "z_unknown v = Some v"

definition envelopeSchema :: "jsvalue \<Rightarrow> envelope option" where
  "envelopeSchema v =
     (case v of
        JObject kvs \<Rightarrow>
          (case (z_string (get_prop kvs ''kind''),
                 z_enum [''market'', ''portfolio'', ''system''] (get_prop kvs ''stream''),
                 z_number_int_nonnegative (get_prop kvs ''sequence''),
                 z_unknown (get_prop kvs ''payload'')) of
             (Some k, Some s, Some n, Some p) \<Rightarrow>
               Some \<lparr>kind = k, stream = s, sequence = n, payload = p\<rparr>
           | _ \<Rightarrow> None)
      | _ \<Rightarrow> None)"

section \<open>The manager\<close>

text \<open>
  A handler and a gap handler are callbacks of the caller: the model keeps their identity
  (a \<open>nat\<close>, compared as \<^verbatim>\<open>h !== handler\<close> compares references) and records each
  call as an \<open>event\<close>; a callback returns normally and does not call back into the
  manager. \<open>HandlerCall chan h env\<close> is the call \<^verbatim>\<open>handler(env)\<close> made while
  \<^verbatim>\<open>handleMessage(chan, ...)\<close> runs, \<open>GapCall g chan expected got\<close> the call
  \<^verbatim>\<open>this.gapHandler(stream, expected, got)\<close>.

  The \<^verbatim>\<open>WebSocket\<close> objects live in \<open>heap\<close>, addressed by their position; the map
  \<open>sockets\<close> holds addresses and keeps the insertion order of a \<^verbatim>\<open>Map\<close>. The field
  \<open>onmessage\<close> of a socket is the stream name captured by the closure
  \<^verbatim>\<open>(event) => this.handleMessage(stream, event.data)\<close>.
\<close>

datatype readyState = CONNECTING | OPEN | CLOSING | CLOSED

record WebSocket =
  url :: string
  onmessage :: string
  readyState :: readyState

datatype error = SyntaxError

datatype event =
    GapCall nat string int int
  | HandlerCall string nat envelope
  | Uncaught error

record WebSocketManager =
  sockets :: "(string \<times> nat) list"
  handlers :: "string \<rightharpoonup> nat list"
  lastSeq :: "string \<rightharpoonup> int"
  gapHandler :: "nat option"
  heap :: "WebSocket list"

text \<open>
  \<^verbatim>\<open>
  private sockets = new Map<string, WebSocket>();
  private handlers = new Map<string, Handler[]>();
  private lastSeq = new Map<string, number>();
  private gapHandler?: GapHandler;
  \<close>
\<close>

definition new_WebSocketManager :: WebSocketManager where
  "new_WebSocketManager =
     \<lparr>sockets = [], handlers = Map.empty, lastSeq = Map.empty, gapHandler = None, heap = []\<rparr>"

text \<open>\<open>handlers_get m chan\<close> is \<^verbatim>\<open>this.handlers.get(stream) ?? []\<close>.\<close>

definition handlers_get :: "WebSocketManager \<Rightarrow> string \<Rightarrow> nat list" where
  "handlers_get m chan = (case handlers m chan of None \<Rightarrow> [] | Some hs \<Rightarrow> hs)"

text \<open>
  \<^verbatim>\<open>
  onGapDetected(handler) { this.gapHandler = handler; }

  subscribe(stream, handler) {
    const next = [...(this.handlers.get(stream) ?? []), handler];
    this.handlers.set(stream, next);
    return () => this.handlers.set(stream,
      (this.handlers.get(stream) ?? []).filter((h) => h !== handler));
  }
  \<close>
  \<open>disposer m chan handler\<close> is a call of the function that \<open>subscribe\<close> returned for
  \<open>chan\<close> and \<open>handler\<close>, in the state \<open>m\<close>.
\<close>

definition onGapDetected :: "WebSocketManager \<Rightarrow> nat \<Rightarrow> WebSocketManager" where
  "onGapDetected m handler = m\<lparr>gapHandler := Some handler\<rparr>"

definition subscribe :: "WebSocketManager \<Rightarrow> string \<Rightarrow> nat \<Rightarrow> WebSocketManager" where
  "subscribe m chan handler =
     m\<lparr>handlers := (handlers m)(chan \<mapsto> handlers_get m chan @ [handler])\<rparr>"

definition disposer :: "WebSocketManager \<Rightarrow> string \<Rightarrow> nat \<Rightarrow> WebSocketManager" where
  "disposer m chan handler =
     m\<lparr>handlers := (handlers m)(chan \<mapsto> filter (\<lambda>h. h \<noteq> handler) (handlers_get m chan))\<rparr>"

text \<open>
  \<^verbatim>\<open>
  connect(stream, url) {
    const ws = new WebSocket(url);
    ws.onmessage = (event) => this.handleMessage(stream, event.data);
    this.sockets.set(stream, ws);
  }

  closeAll() {
    this.sockets.forEach((ws) => ws.close());
    this.sockets.clear();
  }
  \<close>
  \<^verbatim>\<open>ws.close()\<close> starts the closing handshake of a socket that is not closing or closed
  yet.
\<close>

definition connect :: "WebSocketManager \<Rightarrow> string \<Rightarrow> string \<Rightarrow> WebSocketManager" where
  "connect m chan address =
     m\<lparr>sockets := AList.update chan (length (heap m)) (sockets m),
       heap := heap m @ [\<lparr>url = address, onmessage = chan, readyState = CONNECTING\<rparr>]\<rparr>"

definition ws_close :: "WebSocket \<Rightarrow> WebSocket" where
  "ws_close ws =
     (if readyState ws = CLOSING \<or> readyState ws = CLOSED then ws
      else ws\<lparr>readyState := CLOSING\<rparr>)"

definition closeAll :: "WebSocketManager \<Rightarrow> WebSocketManager" where
  "closeAll m =
     m\<lparr>heap := foldl (\<lambda>h (chan, a). h[a := ws_close (h ! a)]) (heap m) (sockets m),
       sockets := []\<rparr>"

text \<open>
  \<^verbatim>\<open>
  private handleMessage(stream, raw) {
    const parsed = typeof raw === 'string' ? JSON.parse(raw) : raw;
    const validated = envelopeSchema.safeParse(parsed);
    if (!validated.success) return;

    const env = validated.data;
    const prev = this.lastSeq.get(stream);
    const expected = (prev ?? env.sequence - 1) + 1;
    if (env.sequence !== expected && this.gapHandler)
      this.gapHandler(stream, expected, env.sequence);
    this.lastSeq.set(stream, env.sequence);

    for (const handler of this.handlers.get(stream) ?? []) handler(env);
  }
  \<close>
  The result is the exception thrown, or the new state with the calls made, in order.
\<close>

definition parsed :: "jsvalue \<Rightarrow> jsvalue option" where
  "parsed raw = (case raw of JString s \<Rightarrow> JSON_parse s | _ \<Rightarrow> Some raw)"

definition handleMessage ::
  "WebSocketManager \<Rightarrow> string \<Rightarrow> jsvalue \<Rightarrow> error + WebSocketManager \<times> event list" where
  "handleMessage m chan raw =
     (case parsed raw of
        None \<Rightarrow> Inl SyntaxError
      | Some v \<Rightarrow>
          (case envelopeSchema v of
             None \<Rightarrow> Inr (m, [])
           | Some env \<Rightarrow>
               (let prev = lastSeq m chan;
                    expected = (case prev of Some p \<Rightarrow> p | None \<Rightarrow> sequence env - 1) + 1;
                    gap = (case gapHandler m of
                             Some g \<Rightarrow>
                               if sequence env \<noteq> expected
                               then [GapCall g chan expected (sequence env)] else []
                           | None \<Rightarrow> [])
                in Inr (m\<lparr>lastSeq := (lastSeq m)(chan \<mapsto> sequence env)\<rparr>,
                        gap @ map (\<lambda>h. HandlerCall chan h env) (handlers_get m chan)))))"

section \<open>The transport and the event loop\<close>

text \<open>
  The platform moves a socket from \<open>CONNECTING\<close> to \<open>OPEN\<close> when the handshake
  completes, and fires \<^verbatim>\<open>onmessage\<close> only on a socket that is \<open>OPEN\<close>. A run is a
  list of calls on one manager, each one turn of the event loop: an exception leaving a
  call is recorded as \<open>Uncaught\<close> and the state is the one the call started from, since
  \<open>handleMessage\<close> throws before it writes anything.
\<close>

definition open_event :: "WebSocketManager \<Rightarrow> nat \<Rightarrow> WebSocketManager" where
  "open_event m a =
     (if a < length (heap m) \<and> readyState (heap m ! a) = CONNECTING
      then m\<lparr>heap := (heap m)[a := (heap m ! a)\<lparr>readyState := OPEN\<rparr>]\<rparr> else m)"

definition close_event :: "WebSocketManager \<Rightarrow> nat \<Rightarrow> WebSocketManager" where
  "close_event m a =
     (if a < length (heap m)
      then m\<lparr>heap := (heap m)[a := (heap m ! a)\<lparr>readyState := CLOSED\<rparr>]\<rparr> else m)"

definition message_event ::
  "WebSocketManager \<Rightarrow> nat \<Rightarrow> jsvalue \<Rightarrow> error + WebSocketManager \<times> event list" where
  "message_event m a raw =
     (if a < length (heap m) \<and> readyState (heap m ! a) = OPEN
      then handleMessage m (onmessage (heap m ! a)) raw else Inr (m, []))"

datatype call =
    OnGapDetected nat
  | Subscribe string nat
  | Disposer string nat
  | Connect string string
  | CloseAll
  | HandleMessage string jsvalue
  | OpenEvent nat
  | CloseEvent nat
  | MessageEvent nat jsvalue

definition caught :: "WebSocketManager \<Rightarrow> error + WebSocketManager \<times> event list
    \<Rightarrow> WebSocketManager \<times> event list" where
  "caught m r = (case r of Inl e \<Rightarrow> (m, [Uncaught e]) | Inr x \<Rightarrow> x)"

fun exec :: "WebSocketManager \<Rightarrow> call \<Rightarrow> WebSocketManager \<times> event list" where
  "exec m (OnGapDetected g) = (onGapDetected m g, [])"
| "exec m (Subscribe chan h) = (subscribe m chan h, [])"
| "exec m (Disposer chan h) = (disposer m chan h, [])"
| "exec m (Connect chan address) = (connect m chan address, [])"
| "exec m CloseAll = (closeAll m, [])"
| "exec m (HandleMessage chan raw) = caught m (handleMessage m chan raw)"
| "exec m (OpenEvent a) = (open_event m a, [])"
| "exec m (CloseEvent a) = (close_event m a, [])"
| "exec m (MessageEvent a raw) = caught m (message_event m a raw)"

fun run :: "WebSocketManager \<Rightarrow> call list \<Rightarrow> WebSocketManager \<times> event list" where
  "run m [] = (m, [])"
| "run m (c # cs) =
     (case exec m c of (m1, es1) \<Rightarrow> (case run m1 cs of (m2, es2) \<Rightarrow> (m2, es1 @ es2)))"

section \<open>The messages of the test suite\<close>

text \<open>
  \<^verbatim>\<open>tests/wsManager.test.ts\<close> sends
  \<^verbatim>\<open>JSON.stringify({ kind: 'tick', stream: 'market', sequence: n, payload: {} })\<close> for
  \<open>n = 1\<close> and \<open>n = 3\<close> and expects the gap handler to be called with
  \<^verbatim>\<open>('market', 2, 3)\<close>.
\<close>

definition tick_1 :: jsvalue where
  \<open>tick_1 = JString ''{"kind":"tick","stream":"market","sequence":1,"payload":{}}''\<close>

definition tick_3 :: jsvalue where
  \<open>tick_3 = JString ''{"kind":"tick","stream":"market","sequence":3,"payload":{}}''\<close>

definition tick_env :: "int \<Rightarrow> envelope" where
  "tick_env n = \<lparr>kind = ''tick'', stream = ''market'', sequence = n, payload = JObject []\<rparr>"

text \<open>
  Two messages on \<open>portfolio\<close> with the sequences 5 and 6, the second one written with
  white space, another order of the keys, a number in exponent form and no payload; and
  messages that decode but fail the schema: no kind, a kind that is no string, a stream
  outside the three names, no stream, no sequence, a fractional, a negative and a
  string sequence, an array, and the value \<^verbatim>\<open>null\<close> passed as it is.
\<close>

definition fill_5 :: jsvalue where
  \<open>fill_5 = JString ''{"kind":"fill","stream":"portfolio","sequence":5,"payload":null}''\<close>


definition bad_messages :: "jsvalue list" where
  \<open>bad_messages =
     [JString ''{"stream":"market","sequence":2,"payload":{}}'',
      JString ''{"kind":7,"stream":"market","sequence":2,"payload":{}}'',
      JString ''{"kind":"tick","stream":"orders","sequence":2,"payload":{}}'',
      JString ''{"kind":"tick","sequence":2,"payload":{}}'',
      JString ''{"kind":"tick","stream":"market","payload":{}}'',
      JString ''{"kind":"tick","stream":"market","sequence":1.5,"payload":{}}'',
      JString ''{"kind":"tick","stream":"market","sequence":-1,"payload":{}}'',
      JString ''{"kind":"tick","stream":"market","sequence":"2","payload":{}}'',
      JString ''[1]'',
      JNull]\<close>

text \<open>
  \<open>is_HandlerCall\<close> selects the calls of subscribers in a list of events. The last
  definitions are the set-up of the application (\<^verbatim>\<open>bootstrapStreams\<close> subscribes, then
  connects) cut down to one stream, two handlers on \<open>system\<close>, a session that ends with
  \<open>closeAll\<close>, and the cycle that follows it: \<open>next_cycle a\<close> registers a gap handler,
  subscribes, connects and delivers \<open>tick_3\<close> on the new socket, whose address is \<open>a\<close>.
\<close>

definition is_HandlerCall :: "event \<Rightarrow> bool" where
  "is_HandlerCall e = (case e of HandlerCall c h env \<Rightarrow> True | _ \<Rightarrow> False)"

definition two_on_system :: WebSocketManager where
  "two_on_system = subscribe (subscribe new_WebSocketManager ''system'' 1) ''system'' 2"

definition alert_7 :: jsvalue where
  \<open>alert_7 = JString ''{"kind":"alert","stream":"system","sequence":7,"payload":{"id":"a"}}''\<close>




text \<open>
  A manager with a gap handler, one subscriber on \<open>market\<close> and one on \<open>portfolio\<close>; the
  envelope of \<open>fill_5\<close>; and a manager with no gap handler that has seen sequence 1 on
  \<open>market\<close>.
\<close>

definition market_and_portfolio :: WebSocketManager where
  "market_and_portfolio =
     subscribe (subscribe (onGapDetected new_WebSocketManager 0) ''market'' 1) ''portfolio'' 2"

definition fill_env :: envelope where
  "fill_env = \<lparr>kind = ''fill'', stream = ''portfolio'', sequence = 5, payload = JNull\<rparr>"

definition market_at_1 :: WebSocketManager where
  "market_at_1 = fst (run new_WebSocketManager [Subscribe ''market'' 1, HandleMessage ''market'' tick_1])"

section \<open>The three outcomes of \<open>handleMessage\<close>\<close>

lemmas json_eval = JSON_parse_def skip_ws_def is_ws_def parse_number_def parse_frac_def
  parse_exp_def is_digit_def digits_val_def pow10_def

lemmas schema_eval = envelopeSchema_def get_prop_def z_string_def z_enum_def
  z_number_int_nonnegative_def z_unknown_def

lemma handleMessage_valid:
  assumes "parsed raw = Some v" and "envelopeSchema v = Some env"
  shows "handleMessage m chan raw =
     Inr (m\<lparr>lastSeq := (lastSeq m)(chan \<mapsto> sequence env)\<rparr>,
          (case gapHandler m of
             Some g \<Rightarrow>
               if sequence env \<noteq> (case lastSeq m chan of Some p \<Rightarrow> p | None \<Rightarrow> sequence env - 1) + 1
               then [GapCall g chan
                       ((case lastSeq m chan of Some p \<Rightarrow> p | None \<Rightarrow> sequence env - 1) + 1)
                       (sequence env)]
               else []
           | None \<Rightarrow> [])
          @ map (\<lambda>h. HandlerCall chan h env) (handlers_get m chan))"
  using assms by (simp add: handleMessage_def Let_def)

lemma handleMessage_invalid:
  assumes "parsed raw = Some v" and "envelopeSchema v = None"
  shows "handleMessage m chan raw = Inr (m, [])"
  using assms by (simp add: handleMessage_def)

lemma handleMessage_SyntaxError:
  assumes "parsed raw = None"
  shows "handleMessage m chan raw = Inl SyntaxError"
  using assms by (simp add: handleMessage_def)

section \<open>Malformed wire encoding\<close>

text \<open>
  C1. Processing a raw message never throws: a raw string that cannot be decoded is dropped
  as a rejection. The code calls \<^verbatim>\<open>JSON.parse\<close> outside any \<^verbatim>\<open>try\<close>: on the raw
  string \<^verbatim>\<open>{\<close> the call of \<open>handleMessage\<close> ends with the \<^verbatim>\<open>SyntaxError\<close> of
  \<^verbatim>\<open>JSON.parse\<close>, whatever the state and the stream.
\<close>

theorem handleMessage_malformed_throws:
  "handleMessage m chan (JString ''{'') = Inl SyntaxError"
  by (simp add: handleMessage_def parsed_def json_eval)

section \<open>Sequence gaps\<close>

lemma parsed_tick_1:
  "parsed tick_1 =
     Some (JObject [(''kind'', JString ''tick''), (''stream'', JString ''market''),
                    (''sequence'', JNumber 1), (''payload'', JObject [])])"
  by (simp add: tick_1_def parsed_def json_eval)

lemma parsed_tick_3:
  "parsed tick_3 =
     Some (JObject [(''kind'', JString ''tick''), (''stream'', JString ''market''),
                    (''sequence'', JNumber 3), (''payload'', JObject [])])"
  by (simp add: tick_3_def parsed_def json_eval)

lemma envelopeSchema_tick:
  "0 \<le> n \<Longrightarrow>
   envelopeSchema (JObject [(''kind'', JString ''tick''), (''stream'', JString ''market''),
                            (''sequence'', JNumber (of_int n)), (''payload'', JObject [])]) =
     Some (tick_env n)"
  by (simp add: schema_eval tick_env_def)

lemma envelopeSchema_tick_1:
  "envelopeSchema (JObject [(''kind'', JString ''tick''), (''stream'', JString ''market''),
                            (''sequence'', JNumber 1), (''payload'', JObject [])]) =
     Some (tick_env 1)"
  using envelopeSchema_tick [of 1] by simp

lemma envelopeSchema_tick_3:
  "envelopeSchema (JObject [(''kind'', JString ''tick''), (''stream'', JString ''market''),
                            (''sequence'', JNumber 3), (''payload'', JObject [])]) =
     Some (tick_env 3)"
  using envelopeSchema_tick [of 3] by simp





lemma parsed_fill_5:
  "parsed fill_5 = Some (JObject [(''kind'', JString ''fill''), (''stream'', JString ''portfolio''),
      (''sequence'', JNumber 5), (''payload'', JNull)])"
  by (simp add: fill_5_def parsed_def json_eval)



section \<open>Messages that fail the schema\<close>

text \<open>
  C4. A message that decodes and fails the schema is dropped without any effect: the
  manager is the one before the call, so no stored sequence has changed, and no handler
  and no gap handler is called.
\<close>

theorem invalid_envelope_dropped:
  assumes "parsed raw = Some v" and "envelopeSchema v = None"
  shows "handleMessage m chan raw = Inr (m, [])"
  using assms by (simp add: handleMessage_def)

lemma floor_three_halves: "\<lfloor>3 / 2 :: rat\<rfloor> = 1"
  using floor_divide_of_int_eq [of 3 2, where ?'a = rat] by simp

lemma bad_messages_invalid:
  "\<forall>raw \<in> set bad_messages. \<exists>v. parsed raw = Some v \<and> envelopeSchema v = None"
  by (simp add: bad_messages_def parsed_def json_eval schema_eval floor_three_halves)

theorem invalid_envelope_dropped_witness:
  "list_all
     (\<lambda>raw. handleMessage (subscribe (onGapDetected new_WebSocketManager 0) ''market'' 1)
               ''market'' raw
             = Inr (subscribe (onGapDetected new_WebSocketManager 0) ''market'' 1, []))
     bad_messages"
  using bad_messages_invalid invalid_envelope_dropped
  by (auto simp add: list_all_iff)

section \<open>What the schema accepts\<close>

lemma envelopeSchema_Some_iff:
  "envelopeSchema v = Some env \<longleftrightarrow>
     (\<exists>kvs k s n. v = JObject kvs
        \<and> get_prop kvs ''kind'' = JString k
        \<and> get_prop kvs ''stream'' = JString s \<and> s \<in> {''market'', ''portfolio'', ''system''}
        \<and> get_prop kvs ''sequence'' = JNumber (of_int n) \<and> 0 \<le> n
        \<and> env = \<lparr>kind = k, stream = s, sequence = n, payload = get_prop kvs ''payload''\<rparr>)"
  apply (cases v)
        apply (simp_all add: envelopeSchema_def z_string_def z_enum_def
      z_number_int_nonnegative_def z_unknown_def split: jsvalue.splits option.splits)
  apply auto
  done

text \<open>
  C5. The schema accepts a value if and only if it is an object whose \<open>kind\<close> is a
  string, whose \<open>stream\<close> is one of \<open>market\<close>, \<open>portfolio\<close>, \<open>system\<close> and whose
  \<open>sequence\<close> is an integer that is not negative. The payload is not looked at: the
  accepted envelope carries whatever the property holds, \<open>JUndefined\<close> when it is absent.
\<close>

theorem envelopeSchema_accepts_iff:
  "(envelopeSchema v \<noteq> None \<longleftrightarrow>
     (\<exists>kvs. v = JObject kvs
        \<and> (\<exists>k. get_prop kvs ''kind'' = JString k)
        \<and> (\<exists>s. get_prop kvs ''stream'' = JString s \<and> s \<in> {''market'', ''portfolio'', ''system''})
        \<and> (\<exists>n. get_prop kvs ''sequence'' = JNumber (of_int n) \<and> 0 \<le> n)))
   \<and> (\<forall>kvs env. envelopeSchema (JObject kvs) = Some env \<longrightarrow>
          payload env = get_prop kvs ''payload'')"
proof -
  have "envelopeSchema v \<noteq> None \<longleftrightarrow> (\<exists>env. envelopeSchema v = Some env)"
    by auto
  then have 1: "envelopeSchema v \<noteq> None \<longleftrightarrow>
     (\<exists>kvs. v = JObject kvs
        \<and> (\<exists>k. get_prop kvs ''kind'' = JString k)
        \<and> (\<exists>s. get_prop kvs ''stream'' = JString s \<and> s \<in> {''market'', ''portfolio'', ''system''})
        \<and> (\<exists>n. get_prop kvs ''sequence'' = JNumber (of_int n) \<and> 0 \<le> n))"
    unfolding envelopeSchema_Some_iff by blast
  have 2: "\<forall>kvs env. envelopeSchema (JObject kvs) = Some env \<longrightarrow>
          payload env = get_prop kvs ''payload''"
    unfolding envelopeSchema_Some_iff by auto
  from 1 2 show ?thesis by blast
qed

theorem envelopeSchema_accepts_iff_witness:
  "envelopeSchema (JObject [(''kind'', JString ''tick''), (''stream'', JString ''system''),
       (''sequence'', JNumber 0)]) \<noteq> None
   \<and> envelopeSchema (JObject [(''kind'', JString ''tick''), (''stream'', JString ''orders''),
       (''sequence'', JNumber 2), (''payload'', JNull)]) = None
   \<and> payload (tick_env 1) = get_prop [(''kind'', JString ''tick''),
       (''stream'', JString ''market''), (''sequence'', JNumber 1), (''payload'', JObject [])]
       ''payload''"
proof -
  have 1: "envelopeSchema (JObject [(''kind'', JString ''tick''), (''stream'', JString ''system''),
       (''sequence'', JNumber 0)]) \<noteq> None"
    using envelopeSchema_accepts_iff [of "JObject [(''kind'', JString ''tick''),
       (''stream'', JString ''system''), (''sequence'', JNumber 0)]"]
    by (simp add: get_prop_def)
  have 2: "envelopeSchema (JObject [(''kind'', JString ''tick''),
       (''stream'', JString ''orders''), (''sequence'', JNumber 2), (''payload'', JNull)]) = None"
    using envelopeSchema_accepts_iff [of "JObject [(''kind'', JString ''tick''),
       (''stream'', JString ''orders''), (''sequence'', JNumber 2), (''payload'', JNull)]"]
    by (simp add: get_prop_def)
  have 3: "payload (tick_env 1) = get_prop [(''kind'', JString ''tick''),
       (''stream'', JString ''market''), (''sequence'', JNumber 1), (''payload'', JObject [])]
       ''payload''"
    using envelopeSchema_accepts_iff [of JNull] envelopeSchema_tick_1 by blast
  from 1 2 3 show ?thesis by blast
qed

text \<open>An object with no \<open>payload\<close> property is accepted.\<close>

theorem payload_absent_accepted:
  "map_of [(''kind'', JString ''tick''), (''stream'', JString ''market''), (''sequence'', JNumber 1)]
      ''payload'' = None
   \<and> envelopeSchema
        (JObject [(''kind'', JString ''tick''), (''stream'', JString ''market''),
                  (''sequence'', JNumber 1)]) =
      Some \<lparr>kind = ''tick'', stream = ''market'', sequence = 1, payload = JUndefined\<rparr>"
  by (simp add: schema_eval)

section \<open>Subscriptions\<close>

lemma handlers_get_simps [simp]:
  "handlers_get (onGapDetected m g) c = handlers_get m c"
  "handlers_get (connect m c' address) c = handlers_get m c"
  "handlers_get (closeAll m) c = handlers_get m c"
  "handlers_get (open_event m a) c = handlers_get m c"
  "handlers_get (close_event m a) c = handlers_get m c"
  "handlers_get (m\<lparr>lastSeq := l\<rparr>) c = handlers_get m c"
  by (simp_all add: handlers_get_def onGapDetected_def connect_def closeAll_def open_event_def
      close_event_def)

lemma handlers_get_subscribe:
  "handlers_get (subscribe m c' h) c =
     (if c = c' then handlers_get m c @ [h] else handlers_get m c)"
  by (simp add: handlers_get_def subscribe_def)

lemma handlers_get_disposer:
  "handlers_get (disposer m c' h) c =
     (if c = c' then filter (\<lambda>x. x \<noteq> h) (handlers_get m c) else handlers_get m c)"
  by (simp add: handlers_get_def disposer_def)

lemma handleMessage_cases:
  obtains (throws) "handleMessage m chan raw = Inl SyntaxError"
  | (dropped) "handleMessage m chan raw = Inr (m, [])"
  | (valid) v env where "parsed raw = Some v" "envelopeSchema v = Some env"
  by (cases "parsed raw"; cases "envelopeSchema (the (parsed raw))")
    (auto simp add: handleMessage_def)

lemma handleMessage_handlers:
  assumes "handleMessage m chan raw = Inr (m', es)"
  shows "handlers_get m' c = handlers_get m c"
    and "HandlerCall c h env \<in> set es \<Longrightarrow> c = chan \<and> h \<in> set (handlers_get m chan)"
proof -
  show "handlers_get m' c = handlers_get m c"
  proof (cases rule: handleMessage_cases [of m chan raw])
    case throws with assms show ?thesis by simp
  next
    case dropped with assms show ?thesis by simp
  next
    case (valid v env')
    from handleMessage_valid [OF valid, of m chan] assms show ?thesis by auto
  qed
  show "HandlerCall c h env \<in> set es \<Longrightarrow> c = chan \<and> h \<in> set (handlers_get m chan)"
  proof (cases rule: handleMessage_cases [of m chan raw])
    case throws with assms show ?thesis by simp
  next
    case dropped
    assume "HandlerCall c h env \<in> set es"
    with dropped assms show ?thesis by simp
  next
    case (valid v env')
    assume "HandlerCall c h env \<in> set es"
    with handleMessage_valid [OF valid, of m chan] assms show ?thesis
      by (auto split: option.splits if_splits)
  qed
qed

lemma caught_handlers:
  assumes "caught m (handleMessage m chan raw) = (m', es)"
  shows "handlers_get m' c = handlers_get m c"
    and "HandlerCall c h env \<in> set es \<Longrightarrow> c = chan \<and> h \<in> set (handlers_get m chan)"
proof -
  show "handlers_get m' c = handlers_get m c"
    using assms handleMessage_handlers(1) [of m chan raw m' es c]
    by (cases "handleMessage m chan raw") (auto simp add: caught_def)
  show "HandlerCall c h env \<in> set es \<Longrightarrow> c = chan \<and> h \<in> set (handlers_get m chan)"
    using assms handleMessage_handlers(2) [of m chan raw m' es c h env]
    by (cases "handleMessage m chan raw") (auto simp add: caught_def)
qed

lemma exec_unsubscribed:
  assumes "h \<notin> set (handlers_get m chan)" and "call \<noteq> Subscribe chan h"
    and "exec m call = (m', es)"
  shows "h \<notin> set (handlers_get m' chan) \<and> HandlerCall chan h env \<notin> set es"
proof (cases call)
  case (HandleMessage c raw)
  with assms caught_handlers [of m c raw m' es] show ?thesis by auto
next
  case (MessageEvent a raw)
  show ?thesis
  proof (cases "a < length (heap m) \<and> readyState (heap m ! a) = OPEN")
    case True
    with MessageEvent assms caught_handlers [of m "onmessage (heap m ! a)" raw m' es]
    show ?thesis by (auto simp add: message_event_def)
  next
    case False
    with MessageEvent assms show ?thesis by (auto simp add: message_event_def caught_def)
  qed
qed (use assms in \<open>auto simp add: handlers_get_subscribe handlers_get_disposer split: if_splits\<close>)

lemma run_unsubscribed:
  assumes "h \<notin> set (handlers_get m chan)" and "Subscribe chan h \<notin> set cs"
  shows "HandlerCall chan h env \<notin> set (snd (run m cs))"
  using assms
proof (induction cs arbitrary: m)
  case Nil
  then show ?case by simp
next
  case (Cons c cs)
  obtain m1 es1 where e: "exec m c = (m1, es1)" by (cases "exec m c")
  from Cons.prems have "c \<noteq> Subscribe chan h" by auto
  from exec_unsubscribed [OF Cons.prems(1) this e]
  have 1: "h \<notin> set (handlers_get m1 chan)" and 2: "HandlerCall chan h env \<notin> set es1" by auto
  from Cons.prems have "Subscribe chan h \<notin> set cs" by simp
  from Cons.IH [OF 1 this] have "HandlerCall chan h env \<notin> set (snd (run m1 cs))" .
  with 2 e show ?case by (auto split: prod.splits)
qed

text \<open>
  C6. The dispatch of a validated envelope on a stream calls the handlers registered for
  that stream, one call for each registration, in the order of registration, inside the
  call of \<open>handleMessage\<close>. After the disposer of a handler has run, no later call on
  the manager, whatever it is, makes a call of that handler for that stream, as long as
  the handler is not subscribed to it again.
\<close>

theorem dispatch_in_registration_order:
  assumes "parsed raw = Some v" and "envelopeSchema v = Some env"
    and "Subscribe chan h \<notin> set cs"
  shows "(\<exists>m1 es. handleMessage m chan raw = Inr (m1, es)
            \<and> filter is_HandlerCall es = map (\<lambda>h. HandlerCall chan h env) (handlers_get m chan))
         \<and> (\<forall>env'. HandlerCall chan h env' \<notin> set (snd (run (disposer m chan h) cs)))"
proof -
  have a: "\<exists>m1 es. handleMessage m chan raw = Inr (m1, es)
           \<and> filter is_HandlerCall es = map (\<lambda>h. HandlerCall chan h env) (handlers_get m chan)"
    using handleMessage_valid [OF assms(1,2), of m chan]
    by (auto simp add: is_HandlerCall_def filter_id_conv split: option.splits)
  have "h \<notin> set (handlers_get (disposer m chan h) chan)"
    by (simp add: handlers_get_disposer)
  from run_unsubscribed [OF this assms(3)]
  have "\<forall>env'. HandlerCall chan h env' \<notin> set (snd (run (disposer m chan h) cs))" by blast
  with a show ?thesis by blast
qed

lemma parsed_alert_7:
  "parsed alert_7 = Some (JObject [(''kind'', JString ''alert''), (''stream'', JString ''system''),
      (''sequence'', JNumber 7), (''payload'', JObject [(''id'', JString ''a'')])])"
  by (simp add: alert_7_def parsed_def json_eval)

lemma envelopeSchema_alert_7:
  "envelopeSchema (JObject [(''kind'', JString ''alert''), (''stream'', JString ''system''),
      (''sequence'', JNumber 7), (''payload'', JObject [(''id'', JString ''a'')])]) =
   Some \<lparr>kind = ''alert'', stream = ''system'', sequence = 7,
          payload = JObject [(''id'', JString ''a'')]\<rparr>"
  by (simp add: schema_eval)

lemma handlers_get_two_on_system: "handlers_get two_on_system ''system'' = [1, 2]"
  by (simp add: two_on_system_def handlers_get_subscribe)
    (simp add: handlers_get_def new_WebSocketManager_def)

theorem dispatch_in_registration_order_witness:
  "(\<exists>m1 es. handleMessage two_on_system ''system'' alert_7 = Inr (m1, es)
      \<and> filter is_HandlerCall es =
          [HandlerCall ''system'' 1 \<lparr>kind = ''alert'', stream = ''system'', sequence = 7,
              payload = JObject [(''id'', JString ''a'')]\<rparr>,
           HandlerCall ''system'' 2 \<lparr>kind = ''alert'', stream = ''system'', sequence = 7,
              payload = JObject [(''id'', JString ''a'')]\<rparr>])
   \<and> (\<forall>env'. HandlerCall ''system'' 1 env' \<notin>
         set (snd (run (disposer two_on_system ''system'' 1)
                [HandleMessage ''system'' alert_7, Subscribe ''market'' 1,
                 HandleMessage ''system'' tick_1])))"
proof -
  have "Subscribe ''system'' 1 \<notin>
      set [HandleMessage ''system'' alert_7, Subscribe ''market'' 1, HandleMessage ''system'' tick_1]"
    by simp
  from dispatch_in_registration_order [OF parsed_alert_7 envelopeSchema_alert_7 this,
      of two_on_system]
  show ?thesis by (simp add: handlers_get_two_on_system)
qed

text \<open>
  C7. The disposer of a subscription takes the handler it closed over out of the list of
  its stream: the other handlers stay, in their order, and nothing else in the manager
  changes. When the handler is no longer in the list, the disposer leaves the manager as
  it is.
\<close>

theorem disposer_removes_handler:
  "handlers_get (disposer m chan h) chan = filter (\<lambda>x. x \<noteq> h) (handlers_get m chan)
   \<and> (\<forall>c. c \<noteq> chan \<longrightarrow> handlers (disposer m chan h) c = handlers m c)
   \<and> sockets (disposer m chan h) = sockets m \<and> lastSeq (disposer m chan h) = lastSeq m
   \<and> gapHandler (disposer m chan h) = gapHandler m \<and> heap (disposer m chan h) = heap m
   \<and> (handlers m chan = Some hs \<and> h \<notin> set hs \<longrightarrow> disposer m chan h = m)"
proof -
  have "disposer m chan h = m" if "handlers m chan = Some hs" "h \<notin> set hs"
  proof -
    have "filter (\<lambda>x. x \<noteq> h) hs = hs"
      using that(2) by (auto simp add: filter_id_conv)
    then have "(handlers m)(chan \<mapsto> filter (\<lambda>x. x \<noteq> h) (handlers_get m chan)) = handlers m"
      using that(1) by (simp add: handlers_get_def map_upd_triv)
    then show ?thesis by (simp add: disposer_def)
  qed
  then show ?thesis
    by (simp add: handlers_get_disposer) (simp add: disposer_def)
qed

theorem disposer_removes_handler_witness:
  "handlers_get (disposer two_on_system ''system'' 1) ''system'' = [2]
   \<and> handlers (disposer two_on_system ''system'' 1) ''system'' = Some [2]
   \<and> disposer (disposer two_on_system ''system'' 1) ''system'' 1
       = disposer two_on_system ''system'' 1"
proof -
  have 1: "handlers (disposer two_on_system ''system'' 1) ''system'' = Some [2]"
    by (simp add: disposer_def handlers_get_two_on_system)
  have 2: "(1::nat) \<notin> set [2]" by simp
  show ?thesis
    using disposer_removes_handler [of two_on_system "''system''" 1 "[]"]
      disposer_removes_handler [of "disposer two_on_system ''system'' 1" "''system''" 1 "[2]"] 1 2
    by (simp add: handlers_get_two_on_system)
qed

section \<open>Closing\<close>











lemma sequence_tick_env: "sequence (tick_env n) = n"
  by (simp add: tick_env_def)

lemmas handleMessage_tick_1 = handleMessage_valid [OF parsed_tick_1 envelopeSchema_tick_1]


lemmas manager_eval = onGapDetected_def subscribe_def disposer_def connect_def closeAll_def
  ws_close_def open_event_def close_event_def message_event_def caught_def handlers_get_def
  new_WebSocketManager_def



section \<open>Routing\<close>

lemma message_event_connect:
  "message_event (open_event (connect m chan address) (length (heap m))) (length (heap m)) raw =
     handleMessage (open_event (connect m chan address) (length (heap m))) chan raw"
  by (simp add: message_event_def open_event_def connect_def)

text \<open>
  C9. A message of the socket that \<open>connect\<close> opened for the stream \<open>chan\<close> is handled
  under \<open>chan\<close>: its sequence is compared with, and stored as, the sequence of \<open>chan\<close>,
  and the handlers of \<open>chan\<close> are called. The \<open>stream\<close> field of the envelope has passed
  the schema and plays no further part: it occurs nowhere in the result but inside the
  envelope handed on.
\<close>

theorem routing_by_connection:
  assumes "parsed raw = Some v" and "envelopeSchema v = Some env"
    and "m1 = open_event (connect m chan address) (length (heap m))"
  shows "message_event m1 (length (heap m)) raw =
     Inr (m1\<lparr>lastSeq := (lastSeq m1)(chan \<mapsto> sequence env)\<rparr>,
          (case gapHandler m1 of
             Some g \<Rightarrow>
               if sequence env \<noteq> (case lastSeq m1 chan of Some p \<Rightarrow> p | None \<Rightarrow> sequence env - 1) + 1
               then [GapCall g chan
                       ((case lastSeq m1 chan of Some p \<Rightarrow> p | None \<Rightarrow> sequence env - 1) + 1)
                       (sequence env)]
               else []
           | None \<Rightarrow> [])
          @ map (\<lambda>h. HandlerCall chan h env) (handlers_get m1 chan))"
  using message_event_connect [of m chan address raw]
    handleMessage_valid [OF assms(1,2), of m1 chan] assms(3)
  by simp

lemma envelopeSchema_fill_5:
  "envelopeSchema (JObject [(''kind'', JString ''fill''), (''stream'', JString ''portfolio''),
      (''sequence'', JNumber 5), (''payload'', JNull)]) = Some fill_env"
  by (simp add: schema_eval fill_env_def)

lemma market_and_portfolio_eq:
  "market_and_portfolio =
     \<lparr>sockets = [], handlers = [''market'' \<mapsto> [1], ''portfolio'' \<mapsto> [2]],
      lastSeq = Map.empty, gapHandler = Some 0, heap = []\<rparr>"
  by (simp add: market_and_portfolio_def manager_eval)

theorem routing_by_connection_witness:
  "message_event
     (open_event (connect market_and_portfolio ''market'' ''ws://localhost:8000/ws/market'') 0)
     0 fill_5 =
   Inr ((open_event (connect market_and_portfolio ''market'' ''ws://localhost:8000/ws/market'') 0)
          \<lparr>lastSeq := [''market'' \<mapsto> 5]\<rparr>,
        [HandlerCall ''market'' 1 fill_env])"
proof -
  let ?m1 = "open_event (connect market_and_portfolio ''market''
        ''ws://localhost:8000/ws/market'') 0"
  have m1: "?m1 = open_event (connect market_and_portfolio ''market''
        ''ws://localhost:8000/ws/market'') (length (heap market_and_portfolio))"
    by (simp add: market_and_portfolio_eq)
  have hs: "handlers_get ?m1 ''market'' = [1]"
    by (simp add: market_and_portfolio_eq manager_eval)
  have ls: "lastSeq ?m1 = Map.empty"
    by (simp add: market_and_portfolio_eq manager_eval)
  have g: "gapHandler ?m1 = Some 0"
    by (simp add: market_and_portfolio_eq manager_eval)
  show ?thesis
    using routing_by_connection [OF parsed_fill_5 envelopeSchema_fill_5 m1]
    unfolding hs ls g
    by (simp add: fill_env_def market_and_portfolio_eq)
qed

section \<open>Without a gap handler\<close>

lemma handleMessage_gapHandler:
  assumes "handleMessage m chan raw = Inr (m', es)"
  shows "gapHandler m' = gapHandler m"
    and "GapCall g c e a \<in> set es \<Longrightarrow> gapHandler m = Some g"
proof -
  show "gapHandler m' = gapHandler m"
  proof (cases rule: handleMessage_cases [of m chan raw])
    case throws with assms show ?thesis by simp
  next
    case dropped with assms show ?thesis by simp
  next
    case (valid v env')
    from handleMessage_valid [OF valid, of m chan] assms show ?thesis by auto
  qed
  show "GapCall g c e a \<in> set es \<Longrightarrow> gapHandler m = Some g"
  proof (cases rule: handleMessage_cases [of m chan raw])
    case throws with assms show ?thesis by simp
  next
    case dropped
    assume "GapCall g c e a \<in> set es"
    with dropped assms show ?thesis by simp
  next
    case (valid v env')
    assume "GapCall g c e a \<in> set es"
    with handleMessage_valid [OF valid, of m chan] assms show ?thesis
      by (auto split: option.splits if_splits)
  qed
qed

lemma caught_gapHandler:
  assumes "caught m (handleMessage m chan raw) = (m', es)"
  shows "gapHandler m' = gapHandler m"
    and "GapCall g c e a \<in> set es \<Longrightarrow> gapHandler m = Some g"
proof -
  show "gapHandler m' = gapHandler m"
    using assms handleMessage_gapHandler(1) [of m chan raw m' es]
    by (cases "handleMessage m chan raw") (auto simp add: caught_def)
  show "GapCall g c e a \<in> set es \<Longrightarrow> gapHandler m = Some g"
    using assms handleMessage_gapHandler(2) [of m chan raw m' es g c e a]
    by (cases "handleMessage m chan raw") (auto simp add: caught_def)
qed

lemma exec_no_observer:
  assumes "gapHandler m = None" and "\<forall>g. call \<noteq> OnGapDetected g"
    and "exec m call = (m', es)"
  shows "gapHandler m' = None \<and> GapCall g c e a \<notin> set es"
proof (cases call)
  case (HandleMessage ch raw)
  with assms caught_gapHandler [of m ch raw m' es] show ?thesis by auto
next
  case (MessageEvent x raw)
  show ?thesis
  proof (cases "x < length (heap m) \<and> readyState (heap m ! x) = OPEN")
    case True
    with MessageEvent assms caught_gapHandler [of m "onmessage (heap m ! x)" raw m' es]
    show ?thesis by (auto simp add: message_event_def)
  next
    case False
    with MessageEvent assms show ?thesis by (auto simp add: message_event_def caught_def)
  qed
qed (use assms in \<open>auto simp add: subscribe_def disposer_def connect_def closeAll_def
    open_event_def close_event_def\<close>)

lemma run_no_observer:
  assumes "gapHandler m = None" and "\<forall>call \<in> set cs. \<forall>g. call \<noteq> OnGapDetected g"
  shows "gapHandler (fst (run m cs)) = None \<and> GapCall g c e a \<notin> set (snd (run m cs))"
  using assms
proof (induction cs arbitrary: m)
  case Nil
  then show ?case by simp
next
  case (Cons x cs)
  obtain m1 es1 where e: "exec m x = (m1, es1)" by (cases "exec m x")
  from Cons.prems have "\<forall>g. x \<noteq> OnGapDetected g" by auto
  from exec_no_observer [OF Cons.prems(1) this e]
  have 1: "gapHandler m1 = None" and 2: "GapCall g c e a \<notin> set es1" by auto
  from Cons.prems have "\<forall>call \<in> set cs. \<forall>g. call \<noteq> OnGapDetected g" by simp
  from Cons.IH [OF 1 this]
  have "gapHandler (fst (run m1 cs)) = None \<and> GapCall g c e a \<notin> set (snd (run m1 cs))" .
  with 2 e show ?case by (auto split: prod.splits)
qed

text \<open>
  C10. With no gap handler registered, a validated envelope produces the calls of the
  subscribers and nothing else, whatever its sequence, and the sequence is stored; with a
  gap handler the new state and the calls of the subscribers are the same. A run without
  \<open>onGapDetected\<close> makes no gap call at all, and registering a gap handler after it makes
  no call either: it sets the field and nothing more, so no earlier gap reaches it.
\<close>

theorem no_observer_no_signal:
  assumes "gapHandler m = None"
    and "parsed raw = Some v" and "envelopeSchema v = Some env"
    and "\<forall>call \<in> set cs. \<forall>g. call \<noteq> OnGapDetected g"
  shows "handleMessage m chan raw =
           Inr (m\<lparr>lastSeq := (lastSeq m)(chan \<mapsto> sequence env)\<rparr>,
                map (\<lambda>h. HandlerCall chan h env) (handlers_get m chan))
    \<and> (\<exists>gaps. handleMessage (m\<lparr>gapHandler := Some g\<rparr>) chan raw =
          Inr (m\<lparr>lastSeq := (lastSeq m)(chan \<mapsto> sequence env), gapHandler := Some g\<rparr>,
               gaps @ map (\<lambda>h. HandlerCall chan h env) (handlers_get m chan)))
    \<and> (\<forall>g' c e a. GapCall g' c e a \<notin> set (snd (run m cs)))
    \<and> exec (fst (run m cs)) (OnGapDetected g) = ((fst (run m cs))\<lparr>gapHandler := Some g\<rparr>, [])"
proof -
  have 1: "handleMessage m chan raw =
           Inr (m\<lparr>lastSeq := (lastSeq m)(chan \<mapsto> sequence env)\<rparr>,
                map (\<lambda>h. HandlerCall chan h env) (handlers_get m chan))"
    using handleMessage_valid [OF assms(2,3), of m chan] assms(1) by simp
  have 2: "\<exists>gaps. handleMessage (m\<lparr>gapHandler := Some g\<rparr>) chan raw =
          Inr (m\<lparr>lastSeq := (lastSeq m)(chan \<mapsto> sequence env), gapHandler := Some g\<rparr>,
               gaps @ map (\<lambda>h. HandlerCall chan h env) (handlers_get m chan))"
    using handleMessage_valid [OF assms(2,3), of "m\<lparr>gapHandler := Some g\<rparr>" chan]
    by (simp add: handlers_get_def)
  have 3: "\<forall>g' c e a. GapCall g' c e a \<notin> set (snd (run m cs))"
    using run_no_observer [OF assms(1,4)] by blast
  have 4: "exec (fst (run m cs)) (OnGapDetected g) = ((fst (run m cs))\<lparr>gapHandler := Some g\<rparr>, [])"
    by (simp add: onGapDetected_def)
  from 1 2 3 4 show ?thesis by blast
qed

lemma market_at_1_eq:
  "market_at_1 = \<lparr>sockets = [], handlers = [''market'' \<mapsto> [1]], lastSeq = [''market'' \<mapsto> 1],
      gapHandler = None, heap = []\<rparr>"
  by (simp add: market_at_1_def manager_eval handleMessage_tick_1 sequence_tick_env)

theorem no_observer_no_signal_witness:
  "handleMessage market_at_1 ''market'' tick_3 =
      Inr (market_at_1\<lparr>lastSeq := [''market'' \<mapsto> 3]\<rparr>, [HandlerCall ''market'' 1 (tick_env 3)])
   \<and> (\<forall>g' c e a. GapCall g' c e a \<notin>
         set (snd (run market_at_1 [HandleMessage ''market'' tick_3, Subscribe ''market'' 2])))
   \<and> exec (fst (run market_at_1 [HandleMessage ''market'' tick_3, Subscribe ''market'' 2]))
        (OnGapDetected 0) =
      ((fst (run market_at_1 [HandleMessage ''market'' tick_3, Subscribe ''market'' 2]))
          \<lparr>gapHandler := Some 0\<rparr>, [])"
proof -
  have g: "gapHandler market_at_1 = None"
    by (simp add: market_at_1_eq)
  have hs: "handlers_get market_at_1 ''market'' = [1]"
    by (simp add: market_at_1_eq handlers_get_def)
  have ls: "(lastSeq market_at_1)(''market'' \<mapsto> 3) = [''market'' \<mapsto> 3]"
    by (simp add: market_at_1_eq)
  have cs: "\<forall>call \<in> set [HandleMessage ''market'' tick_3, Subscribe ''market'' 2].
      \<forall>g. call \<noteq> OnGapDetected g"
    by simp
  from no_observer_no_signal [OF g parsed_tick_3 envelopeSchema_tick_3 cs, of "''market''" 0]
  show ?thesis
    unfolding sequence_tick_env hs ls list.map by blast
qed

end
